theory Spec2Isabelle
  imports Main "HOL-Library.Sublist" "HOL-Library.Word"
begin

section \<open>Python values and built-in operations used by the sources\<close>

text \<open>
  A Python \<open>str\<close> is modelled as a \<open>string\<close> whose characters are the code points
  below 256. The values the sources exchange with the tracker, the model service and the
  cache files are JSON documents as Python's \<open>json\<close> module represents them: \<open>None\<close>,
  \<open>bool\<close>, \<open>int\<close>, \<open>float\<close> (its 64 bits), \<open>str\<close>, \<open>list\<close> and \<open>dict\<close>. A
  \<open>dict\<close> is an association list in insertion order.
\<close>

datatype json =
    JNull
  | JBool bool
  | JInt int
  | JFloat "64 word"
  | JString string
  | JArray "json list"
  | JObject "(string \<times> json) list"

text \<open>
  Exceptions, by the classes the handlers of the sources tell apart. Each carries its
  message, the value of \<open>str(e)\<close>. \<open>JSONDecodeError\<close> is a subclass of
  \<open>ValueError\<close>; \<open>Timeout\<close> is a subclass of \<open>RequestException\<close>;
  \<open>OtherException\<close> stands for every other subclass of \<open>Exception\<close>. An
  exception of several of these classes is the one that a handler tests first: the
  decoding error that \<open>requests\<close> raises, a \<open>RequestException\<close> too, is a
  \<open>JSONDecodeError\<close>. The messages of the exceptions that the interpreter raises
  have the wording of CPython 3.12; no statement below depends on it.
\<close>

datatype exn =
    ValueError string
  | JSONDecodeError string
  | Timeout string
  | RequestException string
  | AttributeError string
  | TypeError string
  | IndexError string
  | FileExistsError string
  | OtherException string

fun str_exn :: "exn \<Rightarrow> string" where
  "str_exn (ValueError m) = m"
| "str_exn (JSONDecodeError m) = m"
| "str_exn (Timeout m) = m"
| "str_exn (RequestException m) = m"
| "str_exn (AttributeError m) = m"
| "str_exn (TypeError m) = m"
| "str_exn (IndexError m) = m"
| "str_exn (FileExistsError m) = m"
| "str_exn (OtherException m) = m"

subsection \<open>Strings\<close>

text \<open>
  \<open>str(n)\<close> for an \<open>int\<close>: the decimal digits, with a minus sign when negative.
  CPython from version 3.11 on refuses the conversion of an integer of more than 4300
  digits; \<open>str_int\<close> is the conversion below that limit, where the numbers of the issues
  of a tracker are.
\<close>

fun digits :: "nat \<Rightarrow> string" where
  "digits n =
     (if n < 10 then [''0123456789'' ! n]
      else digits (n div 10) @ [''0123456789'' ! (n mod 10)])"

declare digits.simps [simp del]

definition str_int :: "int \<Rightarrow> string" where
  "str_int i = (if i < 0 then CHR ''-'' # digits (nat (- i)) else digits (nat i))"

text \<open>
  \<open>s.replace(old, new)\<close>: every occurrence of \<open>old\<close>, found from left to right without
  overlap, becomes \<open>new\<close>. With an empty \<open>old\<close> Python puts \<open>new\<close> before every
  character and at the end.
\<close>

fun replace_py :: "string \<Rightarrow> string \<Rightarrow> string \<Rightarrow> string" where
  "replace_py [] old new = (if old = [] then new else [])"
| "replace_py (c # cs) old new =
     (if old = [] then new @ c # replace_py cs old new
      else if prefix old (c # cs) then new @ replace_py (drop (length old) (c # cs)) old new
      else c # replace_py cs old new)"

text \<open>
  \<open>s.split(sep)\<close>: the pieces between the occurrences of \<open>sep\<close>, found from left to
  right without overlap; \<open>cur\<close> holds the piece being read, reversed. An empty separator
  raises \<open>ValueError\<close>.
\<close>

fun split_acc :: "string \<Rightarrow> string \<Rightarrow> string \<Rightarrow> string list" where
  "split_acc sep cur [] = [rev cur]"
| "split_acc sep cur (c # cs) =
     (if sep \<noteq> [] \<and> prefix sep (c # cs)
      then rev cur # split_acc sep [] (drop (length sep) (c # cs))
      else split_acc sep (c # cur) cs)"

definition split_py :: "string \<Rightarrow> string \<Rightarrow> exn + string list" where
  "split_py s sep =
     (if sep = [] then Inl (ValueError ''empty separator'') else Inr (split_acc sep [] s))"

text \<open>\<open>sub in s\<close> for two strings: \<open>sub\<close> occurs in \<open>s\<close>.\<close>

fun contains :: "string \<Rightarrow> string \<Rightarrow> bool" where
  "contains sub [] = (sub = [])"
| "contains sub (c # cs) = (prefix sub (c # cs) \<or> contains sub cs)"

text \<open>
  \<open>s.strip()\<close> removes leading and trailing whitespace: among the code points below
  256 these are 9 to 13, 28 to 32, 133 and 160.
\<close>

definition isspace :: "char \<Rightarrow> bool" where
  "isspace c =
     (let n = of_char c :: nat
      in (9 \<le> n \<and> n \<le> 13) \<or> (28 \<le> n \<and> n \<le> 32) \<or> n = 133 \<or> n = 160)"

definition strip_py :: "string \<Rightarrow> string" where
  "strip_py s = rev (dropWhile isspace (rev (dropWhile isspace s)))"

text \<open>\<open>xs[i]\<close> raises \<open>IndexError\<close> out of range (the sources use no negative index).\<close>

definition index_py :: "'a list \<Rightarrow> nat \<Rightarrow> exn + 'a" where
  "index_py xs i =
     (if i < length xs then Inr (xs ! i) else Inl (IndexError ''list index out of range''))"

subsection \<open>Dynamic operations on values\<close>

fun type_name :: "json \<Rightarrow> string" where
  "type_name JNull = ''NoneType''"
| "type_name (JBool b) = ''bool''"
| "type_name (JInt i) = ''int''"
| "type_name (JFloat w) = ''float''"
| "type_name (JString s) = ''str''"
| "type_name (JArray xs) = ''list''"
| "type_name (JObject kvs) = ''dict''"

text \<open>The truth value of an object in a condition: empty containers, zero, \<open>None\<close> and \<open>False\<close> are false.\<close>

fun truthy :: "json \<Rightarrow> bool" where
  "truthy JNull = False"
| "truthy (JBool b) = b"
| "truthy (JInt i) = (i \<noteq> 0)"
| "truthy (JFloat w) = (w \<noteq> 0 \<and> w \<noteq> 0x8000000000000000)"
| "truthy (JString s) = (s \<noteq> [])"
| "truthy (JArray xs) = (xs \<noteq> [])"
| "truthy (JObject kvs) = (kvs \<noteq> [])"

text \<open>\<open>d.get(key, default)\<close> on a \<open>dict\<close>.\<close>

definition dict_get :: "(string \<times> json) list \<Rightarrow> string \<Rightarrow> json \<Rightarrow> json" where
  "dict_get kvs key dflt = (case map_of kvs key of Some v \<Rightarrow> v | None \<Rightarrow> dflt)"

text \<open>\<open>x.get(key, default)\<close> on any value: only a \<open>dict\<close> has the method.\<close>

fun py_get :: "json \<Rightarrow> string \<Rightarrow> json \<Rightarrow> exn + json" where
  "py_get (JObject kvs) key dflt = Inr (dict_get kvs key dflt)"
| "py_get v key dflt =
     Inl (AttributeError ([CHR 0x27] @ type_name v @ [CHR 0x27] @ '' object has no attribute ''
                          @ [CHR 0x27] @ ''get'' @ [CHR 0x27]))"

text \<open>
  The items of \<open>for c in x\<close>: the elements of a list, the keys of a dict, the
  characters of a string; anything else is not iterable.
\<close>

fun py_iter :: "json \<Rightarrow> exn + json list" where
  "py_iter (JArray xs) = Inr xs"
| "py_iter (JObject kvs) = Inr (map (\<lambda>kv. JString (fst kv)) kvs)"
| "py_iter (JString s) = Inr (map (\<lambda>c. JString [c]) s)"
| "py_iter v =
     Inl (TypeError ([CHR 0x27] @ type_name v @ [CHR 0x27] @ '' object is not iterable''))"

text \<open>\<open>key in x\<close> for a string \<open>key\<close>.\<close>

fun py_in :: "string \<Rightarrow> json \<Rightarrow> exn + bool" where
  "py_in key (JObject kvs) = Inr (key \<in> set (map fst kvs))"
| "py_in key (JArray xs) = Inr (JString key \<in> set xs)"
| "py_in key (JString s) = Inr (contains key s)"
| "py_in key v =
     Inl (TypeError (''argument of type '' @ [CHR 0x27] @ type_name v @ [CHR 0x27]
                     @ '' is not iterable''))"

text \<open>\<open>sep.join(items)\<close>: every item must be a \<open>str\<close>; \<open>i\<close> counts the items already joined.\<close>

fun join_items :: "string \<Rightarrow> nat \<Rightarrow> json list \<Rightarrow> exn + string" where
  "join_items sep i [] = Inr []"
| "join_items sep i (JString s # rest) =
     (case join_items sep (Suc i) rest of
        Inl e \<Rightarrow> Inl e
      | Inr t \<Rightarrow> Inr (if rest = [] then s else s @ sep @ t))"
| "join_items sep i (v # rest) =
     Inl (TypeError (''sequence item '' @ digits i @ '': expected str instance, ''
                     @ type_name v @ '' found''))"

section \<open>The cache: \<open>cache_utils.py\<close>\<close>

text \<open>
  The files of the cache directory \<open>.cache\<close>: what stands at the path of the directory,
  the content of each file in it by name, and the names that the operating system lets
  the process open.
\<close>

datatype dir_state = Missing | NotADirectory | Directory

record fs =
  cache_dir :: dir_state
  files :: "string \<rightharpoonup> string"
  can_open :: "string \<Rightarrow> bool"

text \<open>\<open>CACHE_DIR.mkdir(exist_ok=True)\<close> raises when the path exists and is not a directory.\<close>

definition ensure_cache_dir :: "fs \<Rightarrow> exn + fs" where
  "ensure_cache_dir s =
     (case cache_dir s of
        Missing \<Rightarrow> Inr (s\<lparr>cache_dir := Directory\<rparr>)
      | Directory \<Rightarrow> Inr s
      | NotADirectory \<Rightarrow> Inl (FileExistsError ''.cache''))"

definition get_cache_key :: "string \<Rightarrow> int \<Rightarrow> string" where
  "get_cache_key repo_url issue_number =
     replace_py (replace_py repo_url ''/'' ''_'') '':'' '''' @ ''_issue_''
       @ str_int issue_number @ ''.json''"

text \<open>
  \<open>json.load\<close> and \<open>json.dump\<close> belong to the standard library; they are the
  parameters \<open>loads\<close> (the decoder, which raises on a text that is no JSON document) and
  \<open>dumps\<close> (the encoder, with the indentation the source asks for).
\<close>

definition get_cached_analysis ::
  "(string \<Rightarrow> exn + json) \<Rightarrow> string \<Rightarrow> int \<Rightarrow> fs \<Rightarrow> exn + (json option \<times> fs)" where
  "get_cached_analysis loads repo_url issue_number s =
     (case ensure_cache_dir s of
        Inl e \<Rightarrow> Inl e
      | Inr s1 \<Rightarrow>
          (let cache_file = get_cache_key repo_url issue_number
           in case files s1 cache_file of
                None \<Rightarrow> Inr (None, s1)
              | Some text \<Rightarrow>
                  if can_open s1 cache_file
                  then (case loads text of Inl e \<Rightarrow> Inr (None, s1) | Inr v \<Rightarrow> Inr (Some v, s1))
                  else Inr (None, s1)))"

definition cache_analysis ::
  "(json \<Rightarrow> string) \<Rightarrow> string \<Rightarrow> int \<Rightarrow> json \<Rightarrow> fs \<Rightarrow> exn + fs" where
  "cache_analysis dumps repo_url issue_number result s =
     (case ensure_cache_dir s of
        Inl e \<Rightarrow> Inl e
      | Inr s1 \<Rightarrow>
          (let cache_file = get_cache_key repo_url issue_number
           in if can_open s1 cache_file
              then Inr (s1\<lparr>files := (files s1)(cache_file \<mapsto> dumps result)\<rparr>)
              else Inr s1))"

section \<open>The tracker: \<open>github_utils.py\<close>\<close>

text \<open>
  The HTTP client is a parameter: \<open>get\<close> answers a request with a response or raises.
  A request is the arguments of \<open>requests.get\<close>; of a response the source reads the
  status code and calls \<open>json()\<close>, which returns the decoded body or raises.
\<close>

record http_request =
  url :: string
  headers :: "(string \<times> string) list"
  timeout :: "nat option"

record http_response =
  status_code :: int
  json_body :: "exn + json"

text \<open>
  \<open>owner, repo = repo_url.replace("https://github.com/", "").split("/")[:2]\<close>:
  unpacking a list of fewer than two elements raises \<open>ValueError\<close>.
\<close>

definition parse_repo_url :: "string \<Rightarrow> exn + (string \<times> string)" where
  "parse_repo_url repo_url =
     (case split_py (replace_py repo_url ''https://github.com/'' '''') ''/'' of
        Inl e \<Rightarrow> Inl e
      | Inr parts \<Rightarrow>
          (case take 2 parts of
             [owner, repo] \<Rightarrow> Inr (owner, repo)
           | xs \<Rightarrow>
               Inl (ValueError (''not enough values to unpack (expected 2, got ''
                                @ digits (length xs) @ '')''))))"

text \<open>The token is the value of \<open>os.getenv("GITHUB_TOKEN")\<close>; an empty one counts as absent.\<close>

definition auth_headers :: "string option \<Rightarrow> (string \<times> string) list" where
  "auth_headers token =
     (case token of
        None \<Rightarrow> []
      | Some t \<Rightarrow> if t \<noteq> [] then [(''Authorization'', ''token '' @ t)] else [])"

definition issue_url :: "string \<Rightarrow> string \<Rightarrow> int \<Rightarrow> string" where
  "issue_url owner repo issue_number =
     ''https://api.github.com/repos/'' @ owner @ ''/'' @ repo @ ''/issues/''
       @ str_int issue_number"

definition issue_request :: "string option \<Rightarrow> string \<Rightarrow> string \<Rightarrow> int \<Rightarrow> http_request" where
  "issue_request token owner repo issue_number =
     \<lparr>url = issue_url owner repo issue_number, headers = auth_headers token,
      timeout = Some 10\<rparr>"

definition comments_request :: "string option \<Rightarrow> string \<Rightarrow> string \<Rightarrow> int \<Rightarrow> http_request" where
  "comments_request token owner repo issue_number =
     \<lparr>url = issue_url owner repo issue_number @ ''/comments'', headers = auth_headers token,
      timeout = Some 10\<rparr>"

text \<open>\<open>[c.get("body", "") for c in comments]\<close>\<close>

fun comment_bodies :: "json list \<Rightarrow> exn + json list" where
  "comment_bodies [] = Inr []"
| "comment_bodies (c # cs) =
     (case py_get c ''body'' (JString '''') of
        Inl e \<Rightarrow> Inl e
      | Inr b \<Rightarrow>
          (case comment_bodies cs of Inl e \<Rightarrow> Inl e | Inr bs \<Rightarrow> Inr (b # bs)))"

text \<open>The newline-joined comment bodies, or the empty string when \<open>comments\<close> is false.\<close>

definition comments_text :: "json \<Rightarrow> exn + string" where
  "comments_text comments =
     (if truthy comments
      then (case py_iter comments of
              Inl e \<Rightarrow> Inl e
            | Inr cs \<Rightarrow>
                (case comment_bodies cs of
                   Inl e \<Rightarrow> Inl e
                 | Inr bodies \<Rightarrow> join_items [CHR 0x0A] 0 bodies))
      else Inr [])"

text \<open>What the source does with the two responses once both requests have returned.\<close>

definition read_responses :: "http_response \<Rightarrow> http_response \<Rightarrow> exn + json" where
  "read_responses issue_resp comments_resp =
     (if status_code issue_resp \<noteq> 200
      then Inr (JObject [(''error'',
                  JString (''GitHub API error: '' @ str_int (status_code issue_resp)))])
      else
        (case json_body issue_resp of
           Inl e \<Rightarrow> Inl e
         | Inr issue \<Rightarrow>
             (case (if status_code comments_resp = 200 then json_body comments_resp
                    else Inr (JArray [])) of
                Inl e \<Rightarrow> Inl e
              | Inr comments \<Rightarrow>
                  (case comments_text comments of
                     Inl e \<Rightarrow> Inl e
                   | Inr text \<Rightarrow>
                       (case py_get issue ''title'' (JString '''') of
                          Inl e \<Rightarrow> Inl e
                        | Inr title \<Rightarrow>
                            (case py_get issue ''body'' (JString '''') of
                               Inl e \<Rightarrow> Inl e
                             | Inr body \<Rightarrow>
                                 Inr (JObject [(''title'', title), (''body'', body),
                                               (''comments'', JString text)])))))))"

text \<open>
  The body of the \<open>try\<close> statement, with the requests it has sent, in order. An
  exception leaves the body at the statement that raises it.
\<close>

definition fetch_try ::
  "string option \<Rightarrow> (http_request \<Rightarrow> exn + http_response) \<Rightarrow> string \<Rightarrow> int
     \<Rightarrow> (exn + json) \<times> http_request list" where
  "fetch_try token get repo_url issue_number =
     (case parse_repo_url repo_url of
        Inl e \<Rightarrow> (Inl e, [])
      | Inr (owner, repo) \<Rightarrow>
          (let issue_req = issue_request token owner repo issue_number;
               comments_req = comments_request token owner repo issue_number
           in case get issue_req of
                Inl e \<Rightarrow> (Inl e, [issue_req])
              | Inr issue_resp \<Rightarrow>
                  (case get comments_req of
                     Inl e \<Rightarrow> (Inl e, [issue_req, comments_req])
                   | Inr comments_resp \<Rightarrow>
                       (read_responses issue_resp comments_resp, [issue_req, comments_req]))))"

text \<open>The \<open>except\<close> clauses, in the order of the source: the first that matches answers.\<close>

fun fetch_except :: "exn \<Rightarrow> json" where
  "fetch_except (ValueError m) = JObject [(''error'', JString ''Invalid GitHub URL format'')]"
| "fetch_except (JSONDecodeError m) = JObject [(''error'', JString ''Invalid GitHub URL format'')]"
| "fetch_except (Timeout m) =
     JObject [(''error'', JString ''Request timeout - GitHub server took too long'')]"
| "fetch_except (RequestException m) = JObject [(''error'', JString (''Network error: '' @ m))]"
| "fetch_except e = JObject [(''error'', JString (str_exn e))]"

definition fetch_github_issue ::
  "string option \<Rightarrow> (http_request \<Rightarrow> exn + http_response) \<Rightarrow> string \<Rightarrow> int
     \<Rightarrow> json \<times> http_request list" where
  "fetch_github_issue token get repo_url issue_number =
     (case fetch_try token get repo_url issue_number of
        (Inl e, sent) \<Rightarrow> (fetch_except e, sent)
      | (Inr issue_record, sent) \<Rightarrow> (issue_record, sent))"

section \<open>The analysis: \<open>hf.py\<close>\<close>

text \<open>
  The model service is a parameter: \<open>generate\<close> answers the arguments of
  \<open>client.models.generate_content\<close> with the \<open>text\<close> of the response, which may be
  \<open>None\<close>, or raises. The source passes a model name and the prompt and no
  configuration, so no timeout: \<open>http_timeout\<close> is the timeout of the optional
  configuration argument.
\<close>

record gen_request =
  model :: string
  contents :: string
  http_timeout :: "nat option"

fun join_lines :: "string list \<Rightarrow> string" where
  "join_lines [] = []"
| "join_lines [l] = l"
| "join_lines (l # ls) = l @ CHR 0x0A # join_lines ls"

text \<open>The text of the prompt around the three fields that the f-string embeds.\<close>

definition prompt_text :: "string \<Rightarrow> string \<Rightarrow> string \<Rightarrow> string" where
  \<open>prompt_text title body comments = join_lines [
     ''You are an expert GitHub issue triage assistant with deep experience in software engineering.'',
     '''',
     ''Your task: Analyze the following GitHub issue and extract structured insights.'',
     '''',
     ''CRITICAL: Return ONLY valid JSON in this exact format. No explanation, no markdown, just JSON.'',
     '''',
     ''{'',
     ''  "summary": "One clear sentence describing the core problem or feature request",'',
     ''  "type": "Classify as one of: bug, feature_request, documentation, question, other",'',
     ''  "priority_score": "A score 1-5 with brief justification (e.g., '4 - Affects core functionality')",'',
     ''  "suggested_labels": ["label1", "label2", "label3"],'',
     ''  "potential_impact": "Brief sentence on user/business impact if issue is a bug, or value if feature"'',
     ''}'',
     '''',
     ''GitHub Issue Details:'',
     ''---'',
     ''Title: '' @ title,
     '''',
     ''Body:'',
     body,
     '''',
     ''Community Comments:'',
     comments,
     ''---'',
     '''',
     ''Remember: '',
     ''1. Output ONLY JSON - no markdown, no explanation'',
     ''2. Type must be exactly one of: bug, feature_request, documentation, question, other'',
     ''3. Priority must be 1-5'',
     ''4. For issues with minimal info, infer from title and comments'',
     ''5. Labels should be specific and actionable'',
     '''',
     ''RETURN ONLY JSON:'']\<close>

text \<open>
  The prompt is an f-string: it applies Python's \<open>str\<close> to the three fields, from left
  to right, and an exception that \<open>str\<close> raises leaves the f-string. \<open>py_str\<close> is
  \<open>str\<close> on a value, a parameter: it is the identity on a string, and it raises
  \<open>ValueError\<close> on an integer of more than 4300 digits. The prompt is built before
  the \<open>try\<close> statement.
\<close>

definition prompt :: "(json \<Rightarrow> exn + string) \<Rightarrow> (string \<times> json) list \<Rightarrow> exn + string" where
  "prompt py_str issue_data =
     (case py_str (dict_get issue_data ''title'' (JString '''')) of
        Inl e \<Rightarrow> Inl e
      | Inr title \<Rightarrow>
          (case py_str (dict_get issue_data ''body'' (JString ''No description provided'')) of
             Inl e \<Rightarrow> Inl e
           | Inr body \<Rightarrow>
               (case py_str (dict_get issue_data ''comments'' (JString ''No comments yet'')) of
                  Inl e \<Rightarrow> Inl e
                | Inr comments \<Rightarrow> Inr (prompt_text title body comments))))"

text \<open>The marker of a fenced code block: three backquotes.\<close>

definition fence :: string where
  "fence = replicate 3 (CHR 0x60)"

text \<open>
  The removal of a code fence: when the text starts with the marker, the piece between
  the first marker and the next one is kept, less a leading \<open>json\<close>.
\<close>

definition strip_code_fence :: "string \<Rightarrow> exn + string" where
  "strip_code_fence response_text =
     (if prefix fence response_text
      then (case split_py response_text fence of
              Inl e \<Rightarrow> Inl e
            | Inr pieces \<Rightarrow>
                (case index_py pieces 1 of
                   Inl e \<Rightarrow> Inl e
                 | Inr piece \<Rightarrow> Inr (if prefix ''json'' piece then drop 4 piece else piece)))
      else Inr response_text)"

definition required_keys :: "string list" where
  "required_keys = [''summary'', ''type'', ''priority_score'', ''suggested_labels'',
                    ''potential_impact'']"

text \<open>\<open>all(key in result for key in keys)\<close> stops at the first key that is not in.\<close>

fun all_in :: "string list \<Rightarrow> json \<Rightarrow> exn + bool" where
  "all_in [] result = Inr True"
| "all_in (key # keys) result =
     (case py_in key result of
        Inl e \<Rightarrow> Inl e
      | Inr b \<Rightarrow> if b then all_in keys result else Inr False)"

text \<open>
  The body of the \<open>try\<close> statement, from the text of the response on. \<open>loads\<close> is
  \<open>json.loads\<close>, a parameter as in the cache.
\<close>

definition read_response :: "(string \<Rightarrow> exn + json) \<Rightarrow> string option \<Rightarrow> exn + json" where
  "read_response loads text =
     (case text of
        None \<Rightarrow>
          Inl (AttributeError ([CHR 0x27] @ ''NoneType'' @ [CHR 0x27] @ '' object has no attribute ''
                               @ [CHR 0x27] @ ''strip'' @ [CHR 0x27]))
      | Some t \<Rightarrow>
          (case strip_code_fence (strip_py t) of
             Inl e \<Rightarrow> Inl e
           | Inr response_text \<Rightarrow>
               (case loads response_text of
                  Inl e \<Rightarrow> Inl e
                | Inr result \<Rightarrow>
                    (case all_in required_keys result of
                       Inl e \<Rightarrow> Inl e
                     | Inr complete \<Rightarrow>
                         if \<not> complete
                         then Inr (JObject [(''error'', JString ''Incomplete analysis response'')])
                         else Inr result))))"

text \<open>The arguments of \<open>generate_content\<close> for a prompt.\<close>

definition analyze_request :: "string \<Rightarrow> gen_request" where
  "analyze_request prompt_built =
     \<lparr>model = ''gemini-3-flash-preview'', contents = prompt_built, http_timeout = None\<rparr>"

text \<open>The body of the \<open>try\<close> statement for a prompt, with the request it has sent.\<close>

definition analyze_try ::
  "string \<Rightarrow> (gen_request \<Rightarrow> exn + string option) \<Rightarrow> (string \<Rightarrow> exn + json)
     \<Rightarrow> (exn + json) \<times> gen_request list" where
  "analyze_try prompt_built generate loads =
     (let request = analyze_request prompt_built
      in case generate request of
           Inl e \<Rightarrow> (Inl e, [request])
         | Inr text \<Rightarrow> (read_response loads text, [request]))"

fun analyze_except :: "exn \<Rightarrow> json" where
  "analyze_except (JSONDecodeError m) =
     JObject [(''error'', JString ''AI response parsing failed''),
              (''details'', JString ''Could not parse AI output as JSON'')]"
| "analyze_except e =
     JObject [(''error'', JString ''Analysis failed''), (''details'', JString (str_exn e))]"

text \<open>
  The function: an exception of the prompt leaves it (\<open>Inl\<close>); an exception of the body
  of the \<open>try\<close> statement goes to the \<open>except\<close> clauses, and the function returns
  (\<open>Inr\<close>) a record and the request it has sent.
\<close>

definition analyze_issue_with_ai ::
  "(json \<Rightarrow> exn + string) \<Rightarrow> (gen_request \<Rightarrow> exn + string option)
     \<Rightarrow> (string \<Rightarrow> exn + json) \<Rightarrow> (string \<times> json) list
     \<Rightarrow> exn + (json \<times> gen_request list)" where
  "analyze_issue_with_ai py_str generate loads issue_data =
     (case prompt py_str issue_data of
        Inl e \<Rightarrow> Inl e
      | Inr prompt_built \<Rightarrow>
          (case analyze_try prompt_built generate loads of
             (Inl e, sent) \<Rightarrow> Inr (analyze_except e, sent)
           | (Inr result, sent) \<Rightarrow> Inr (result, sent)))"

section \<open>Reading a returned record\<close>

text \<open>\<open>field\<close> reads a field of a returned record.\<close>

fun field :: "json \<Rightarrow> string \<Rightarrow> json option" where
  "field (JObject kvs) key = map_of kvs key"
| "field v key = None"

text \<open>Of the outcome of \<open>analyze\<close>: the record it returns, and the requests it has sent.\<close>

fun result_of :: "exn + (json \<times> gen_request list) \<Rightarrow> exn + json" where
  "result_of (Inl e) = Inl e"
| "result_of (Inr (result, sent)) = Inr result"

fun sent_of :: "exn + (json \<times> gen_request list) \<Rightarrow> exn + gen_request list" where
  "sent_of (Inl e) = Inl e"
| "sent_of (Inr (result, sent)) = Inr sent"

fun field_of :: "exn + (json \<times> gen_request list) \<Rightarrow> string \<Rightarrow> json option" where
  "field_of (Inl e) key = None"
| "field_of (Inr (result, sent)) key = field result key"

section \<open>Concrete environments\<close>

text \<open>
  A tracker that answers by URL from a table and refuses every other connection, and a
  model service that answers every prompt with one text.
\<close>

definition example_get ::
  "(string \<times> (exn + http_response)) list \<Rightarrow> http_request \<Rightarrow> exn + http_response" where
  "example_get answers r =
     (case map_of answers (url r) of
        Some a \<Rightarrow> a
      | None \<Rightarrow> Inl (RequestException ''connection refused''))"

definition example_generate :: "string \<Rightarrow> gen_request \<Rightarrow> exn + string option" where
  "example_generate text request = Inr (Some text)"

text \<open>A model service that is not available.\<close>

definition example_unavailable :: "gen_request \<Rightarrow> exn + string option" where
  "example_unavailable request = Inl (OtherException ''503 UNAVAILABLE'')"

text \<open>The analysis record of the specification's example, its compact JSON text, and the
  text that \<open>json.dump\<close> writes for it with an indentation of two.\<close>

definition example_analysis :: json where
  "example_analysis =
     JObject [(''summary'', JString ''s''), (''type'', JString ''bug''),
              (''priority_score'', JString ''3 - x''),
              (''suggested_labels'', JArray [JString ''a'']),
              (''potential_impact'', JString ''i'')]"

definition example_text :: string where
  \<open>example_text =
     ''{"summary":"s","type":"bug","priority_score":"3 - x","suggested_labels":["a"],"potential_impact":"i"}''\<close>

definition example_indented_text :: string where
  \<open>example_indented_text = join_lines [
     ''{'',
     ''  "summary": "s",'',
     ''  "type": "bug",'',
     ''  "priority_score": "3 - x",'',
     ''  "suggested_labels": ['',
     ''    "a"'',
     ''  ],'',
     ''  "potential_impact": "i"'',
     ''}'']\<close>

text \<open>The same record without \<open>potential_impact\<close>.\<close>

definition example_incomplete :: json where
  "example_incomplete =
     JObject [(''summary'', JString ''s''), (''type'', JString ''bug''),
              (''priority_score'', JString ''3 - x''),
              (''suggested_labels'', JArray [JString ''a''])]"

definition example_incomplete_text :: string where
  \<open>example_incomplete_text =
     ''{"summary":"s","type":"bug","priority_score":"3 - x","suggested_labels":["a"]}''\<close>

text \<open>A complete record whose summary quotes a command between two fence markers.\<close>

definition example_quoting :: json where
  "example_quoting =
     JObject [(''summary'', JString (''run '' @ fence @ ''x'' @ fence)), (''type'', JString ''bug''),
              (''priority_score'', JString ''3 - x''),
              (''suggested_labels'', JArray [JString ''a'']),
              (''potential_impact'', JString ''i'')]"

definition example_quoting_text :: string where
  \<open>example_quoting_text =
     ''{"summary":"run '' @ fence @ ''x'' @ fence
       @ ''","type":"bug","priority_score":"3 - x","suggested_labels":["a"],"potential_impact":"i"}''\<close>

text \<open>
  \<open>json.loads\<close> and \<open>json.dumps\<close> on the texts and values of the examples: the
  texts of the complete records (the compact ones also between two newlines), the text of
  the incomplete one and the number 42 decode as shown; no other text that an example
  passes to the decoder is a JSON document.
\<close>

definition example_loads :: "string \<Rightarrow> exn + json" where
  "example_loads text =
     (if text = example_text \<or> text = [CHR 0x0A] @ example_text @ [CHR 0x0A]
         \<or> text = example_indented_text
      then Inr example_analysis
      else if text = example_quoting_text \<or> text = [CHR 0x0A] @ example_quoting_text @ [CHR 0x0A]
      then Inr example_quoting
      else if text = example_incomplete_text then Inr example_incomplete
      else if text = ''42'' then Inr (JInt 42)
      else Inl (JSONDecodeError ''Expecting value''))"

definition example_dumps :: "json \<Rightarrow> string" where
  "example_dumps v = (if v = example_analysis then example_indented_text else ''null'')"

text \<open>
  \<open>str\<close> on the values that the examples format: a string, \<open>None\<close> and an integer,
  with the limit of CPython from version 3.11 on. \<open>int_max_str\<close> is the least positive
  integer of more than 4300 digits.
\<close>

definition int_max_str :: int where
  "int_max_str = 10 ^ 4300"

definition int_max_str_message :: string where
  "int_max_str_message =
     ''Exceeds the limit (4300 digits) for integer string conversion; ''
       @ ''use sys.set_int_max_str_digits() to increase the limit''"

definition example_py_str :: "json \<Rightarrow> exn + string" where
  "example_py_str v =
     (case v of
        JString s \<Rightarrow> Inr s
      | JInt i \<Rightarrow>
          if int_max_str \<le> \<bar>i\<bar>
          then Inl (ValueError int_max_str_message)
          else Inr (str_int i)
      | _ \<Rightarrow> Inr ''None'')"

text \<open>A file system in which the cache directory does not exist yet.\<close>

definition example_fs :: fs where
  "example_fs = \<lparr>cache_dir = Missing, files = Map.empty, can_open = (\<lambda>name. True)\<rparr>"

section \<open>Auxiliary facts\<close>

lemmas fetch_eval =
  fetch_github_issue_def fetch_try_def parse_repo_url_def split_py_def issue_request_def
  comments_request_def issue_url_def auth_headers_def str_int_def digits.simps
  read_responses_def comments_text_def dict_get_def example_get_def

lemma fence_chars: "fence = [CHR 0x60, CHR 0x60, CHR 0x60]"
  by (simp add: fence_def numeral_3_eq_3)

lemmas analyze_eval =
  analyze_issue_with_ai_def prompt_def dict_get_def analyze_try_def read_response_def
  strip_code_fence_def split_py_def index_py_def strip_py_def isspace_def fence_chars
  required_keys_def example_generate_def

lemmas example_eval =
  example_analysis_def example_text_def example_incomplete_def example_incomplete_text_def
  example_indented_text_def example_quoting_def example_quoting_text_def example_loads_def
  example_dumps_def example_py_str_def

subsection \<open>The result of the two functions in terms of their \<open>try\<close> bodies\<close>

lemma fetch_result:
  "fst (fetch_github_issue token get repo_url issue_number)
     = (case fst (fetch_try token get repo_url issue_number) of
          Inl e \<Rightarrow> fetch_except e
        | Inr issue_record \<Rightarrow> issue_record)"
  by (simp add: fetch_github_issue_def split: prod.splits sum.splits)

lemma fetch_sent:
  "snd (fetch_github_issue token get repo_url issue_number)
     = snd (fetch_try token get repo_url issue_number)"
  by (simp add: fetch_github_issue_def split: prod.splits sum.splits)

text \<open>\<open>analyze\<close> raises what the prompt raises, and nothing else; once the prompt is
  built, it returns what the \<open>try\<close> statement makes of its body.\<close>

lemma analyze_raises_iff:
  "analyze_issue_with_ai py_str generate loads issue_data = Inl e
     \<longleftrightarrow> prompt py_str issue_data = Inl e"
  by (simp add: analyze_issue_with_ai_def split: prod.splits sum.splits)

lemma analyze_try_sent: "snd (analyze_try p generate loads) = [analyze_request p]"
  by (simp add: analyze_try_def Let_def split: sum.splits)

lemma analyze_built:
  assumes "prompt py_str issue_data = Inr p"
  shows "analyze_issue_with_ai py_str generate loads issue_data
           = Inr (case fst (analyze_try p generate loads) of
                    Inl e \<Rightarrow> analyze_except e
                  | Inr result \<Rightarrow> result,
                  [analyze_request p])"
proof (cases "analyze_try p generate loads")
  case (Pair outcome sent)
  with analyze_try_sent [of p generate loads] have "sent = [analyze_request p]" by simp
  with Pair assms show ?thesis
    by (simp add: analyze_issue_with_ai_def split: sum.splits)
qed

text \<open>The prompt of an issue whose three fields are strings or absent.\<close>

lemma example_prompt_empty:
  "prompt example_py_str []
     = Inr (prompt_text '''' ''No description provided'' ''No comments yet'')"
  by (simp add: prompt_def example_py_str_def dict_get_def)

lemma example_prompt_title:
  "prompt example_py_str [(''title'', JString title)]
     = Inr (prompt_text title ''No description provided'' ''No comments yet'')"
  by (simp add: prompt_def example_py_str_def dict_get_def)

lemma fetch_except_error: "\<exists>m. fetch_except e = JObject [(''error'', JString m)]"
  by (cases e) simp_all

lemma analyze_except_error:
  "\<exists>m d. analyze_except e = JObject [(''error'', JString m), (''details'', JString d)]"
  by (cases e) simp_all

text \<open>Once both requests have returned, the result is what the source reads from the responses.\<close>

lemma fetch_both_returned:
  assumes "parse_repo_url repo_url = Inr (owner, repo)"
    and "get (issue_request token owner repo n) = Inr issue_resp"
    and "get (comments_request token owner repo n) = Inr comments_resp"
  shows "fetch_try token get repo_url n =
           (read_responses issue_resp comments_resp,
            [issue_request token owner repo n, comments_request token owner repo n])"
  using assms by (simp add: fetch_try_def)

lemma analyze_returned:
  assumes "generate (analyze_request p) = Inr text"
  shows "fst (analyze_try p generate loads) = read_response loads text"
  using assms by (simp add: analyze_try_def Let_def)

text \<open>What \<open>fetch\<close> returns without an exception is an error record or a record of
  the three fields of an issue.\<close>

lemma read_responses_shape:
  assumes "read_responses issue_resp comments_resp = Inr r"
  shows "(\<exists>m. r = JObject [(''error'', JString m)])
         \<or> (\<exists>title body text.
               r = JObject [(''title'', title), (''body'', body), (''comments'', JString text)])"
  using assms by (auto simp add: read_responses_def split: if_splits sum.splits)

lemma fetch_try_shape:
  assumes "fst (fetch_try token get repo_url issue_number) = Inr r"
  shows "(\<exists>m. r = JObject [(''error'', JString m)])
         \<or> (\<exists>title body text.
               r = JObject [(''title'', title), (''body'', body), (''comments'', JString text)])"
proof -
  from assms obtain issue_resp comments_resp
    where "read_responses issue_resp comments_resp = Inr r"
    by (auto simp add: fetch_try_def Let_def split: sum.splits prod.splits)
  then show ?thesis by (rule read_responses_shape)
qed

subsection \<open>Unpacking the path of the URL\<close>

lemma parse_too_short:
  assumes "split_py (replace_py repo_url ''https://github.com/'' '''') ''/'' = Inr parts"
    and "length parts < 2"
  shows "\<exists>m. parse_repo_url repo_url = Inl (ValueError m)"
proof (cases parts)
  case Nil
  with assms(1) show ?thesis by (simp add: parse_repo_url_def)
next
  case (Cons p ps)
  with assms(2) have "ps = []" by simp
  with Cons assms(1) show ?thesis by (simp add: parse_repo_url_def)
qed

subsection \<open>Splitting at the first separator\<close>

text \<open>An occurrence of the separator that starts inside \<open>x\<close> lies within \<open>x\<close> and
  all but the last character of the separator that follows.\<close>

lemma prefix_within:
  assumes "prefix sep (x @ sep @ rest)" and "x \<noteq> []"
  shows "prefix sep (x @ butlast sep)"
proof -
  from assms(1) have "sep = take (length sep) (x @ sep @ rest)"
    by (metis append_eq_conv_conj prefix_def)
  also have "\<dots> = take (length sep) (x @ butlast sep)"
    using assms(2) by (cases sep rule: rev_cases) (cases x, simp_all)+
  finally have "sep = take (length sep) (x @ butlast sep)" .
  then show ?thesis
    by (metis take_is_prefix)
qed

lemma split_acc_first:
  assumes "sep \<noteq> []" and "\<not> contains sep (x @ butlast sep)"
  shows "split_acc sep cur (x @ sep @ rest) = (rev cur @ x) # split_acc sep [] rest"
  using assms(2)
proof (induction x arbitrary: cur)
  case Nil
  from assms(1) obtain c cs where sep: "sep = c # cs" by (cases sep) auto
  then show ?case by simp
next
  case (Cons a x)
  from Cons.prems have no_here: "\<not> prefix sep ((a # x) @ butlast sep)"
    and no_later: "\<not> contains sep (x @ butlast sep)" by simp_all
  have "\<not> prefix sep ((a # x) @ sep @ rest)"
    using no_here prefix_within [of sep "a # x" rest] by blast
  then have "split_acc sep cur ((a # x) @ sep @ rest) = split_acc sep (a # cur) (x @ sep @ rest)"
    by simp
  also have "\<dots> = (rev (a # cur) @ x) # split_acc sep [] rest"
    by (rule Cons.IH [OF no_later])
  finally show ?case by simp
qed

lemma fence_pieces:
  assumes "\<not> contains fence (inner @ butlast fence)"
  shows "split_py (fence @ inner @ fence @ rest) fence
           = Inr ([] # inner # split_acc fence [] rest)"
proof -
  have ne: "fence \<noteq> []" by (simp add: fence_def)
  have "split_acc fence [] (fence @ inner @ fence @ rest)
          = [] # split_acc fence [] (inner @ fence @ rest)"
  proof -
    have "\<not> contains fence ([] @ butlast fence)" by (simp add: fence_chars)
    from split_acc_first [OF ne this, of "[]" "inner @ fence @ rest"] show ?thesis by simp
  qed
  also have "split_acc fence [] (inner @ fence @ rest) = inner # split_acc fence [] rest"
    using split_acc_first [OF ne assms, of "[]" rest] by simp
  finally show ?thesis using ne by (simp add: split_py_def)
qed

lemma strip_code_fence_fenced:
  assumes "\<not> contains fence (inner @ butlast fence)"
  shows "strip_code_fence (fence @ inner @ fence @ rest)
           = Inr (if prefix ''json'' inner then drop 4 inner else inner)"
  by (simp add: strip_code_fence_def fence_pieces [OF assms] index_py_def)

subsection \<open>The test for the required keys\<close>

lemma all_in_object:
  "all_in keys (JObject kvs) = Inr (set keys \<subseteq> set (map fst kvs))"
  by (induction keys) auto

lemma py_in_False_total:
  assumes "py_in k result = Inr False"
  shows "\<exists>b. py_in k' result = Inr b"
  using assms by (cases result) simp_all

lemma all_in_missing:
  assumes "k \<in> set keys" and "py_in k result = Inr False"
  shows "all_in keys result = Inr False"
  using assms(1)
proof (induction keys)
  case Nil
  then show ?case by simp
next
  case (Cons key keys)
  from py_in_False_total [OF assms(2)] obtain b where b: "py_in key result = Inr b" by blast
  show ?case
  proof (cases b)
    case True
    with b assms(2) have "key \<noteq> k" by auto
    with Cons.prems have "k \<in> set keys" by simp
    with Cons.IH b True show ?thesis by simp
  next
    case False
    with b show ?thesis by simp
  qed
qed

subsection \<open>The cache directory\<close>

lemma ensure_cache_dir_creates:
  assumes "cache_dir s \<noteq> NotADirectory"
  shows "ensure_cache_dir s = Inr (s\<lparr>cache_dir := Directory\<rparr>)"
proof (cases "cache_dir s")
  case Missing
  then show ?thesis by (simp add: ensure_cache_dir_def)
next
  case NotADirectory
  with assms show ?thesis by simp
next
  case Directory
  then have "s\<lparr>cache_dir := Directory\<rparr> = s" by (cases s) simp
  with Directory show ?thesis by (simp add: ensure_cache_dir_def)
qed

subsection \<open>The decimal digits of a number\<close>

lemma digit_distinct:
  assumes "i < 10" and "j < 10" and "''0123456789'' ! i = ''0123456789'' ! j"
  shows "i = j"
proof -
  have "distinct ''0123456789''" by simp
  moreover have "i < length ''0123456789''" "j < length ''0123456789''" using assms by simp_all
  ultimately show ?thesis using assms(3) by (simp only: nth_eq_iff_index_eq)
qed

lemma digits_not_Nil: "digits n \<noteq> []"
  by (subst digits.simps) simp

lemma digits_chars: "set (digits n) \<subseteq> set ''0123456789''"
proof (induction n rule: digits.induct)
  case (1 n)
  have m: "n mod 10 < length ''0123456789''" by simp
  show ?case
  proof (cases "n < 10")
    case True
    then have "n < length ''0123456789''" by simp
    then have "''0123456789'' ! n \<in> set ''0123456789''" by (rule nth_mem)
    with True show ?thesis by (subst digits.simps) simp
  next
    case False
    from m have "''0123456789'' ! (n mod 10) \<in> set ''0123456789''" by (rule nth_mem)
    with False "1.IH" show ?thesis by (subst digits.simps) simp
  qed
qed

lemma digits_inj: "digits n = digits m \<Longrightarrow> n = m"
proof (induction n arbitrary: m rule: digits.induct)
  case (1 n)
  show ?case
  proof (cases "n < 10")
    case n: True
    show ?thesis
    proof (cases "m < 10")
      case True
      with n "1.prems" have "''0123456789'' ! n = ''0123456789'' ! m"
        by (simp add: digits.simps [of n] digits.simps [of m])
      with n True show ?thesis by (rule digit_distinct)
    next
      case False
      with n "1.prems" have "digits (m div 10) = []"
        by (simp add: digits.simps [of n] digits.simps [of m])
      with digits_not_Nil show ?thesis by blast
    qed
  next
    case n: False
    show ?thesis
    proof (cases "m < 10")
      case True
      with n "1.prems" have "digits (n div 10) = []"
        by (simp add: digits.simps [of n] digits.simps [of m])
      with digits_not_Nil show ?thesis by blast
    next
      case False
      with n "1.prems" have d: "digits (n div 10) = digits (m div 10)"
        and l: "''0123456789'' ! (n mod 10) = ''0123456789'' ! (m mod 10)"
        by (simp_all add: digits.simps [of n] digits.simps [of m])
      from "1.IH" [OF n d] have "n div 10 = m div 10" .
      moreover have "n mod 10 = m mod 10"
        using l by (intro digit_distinct) simp_all
      ultimately show ?thesis by (metis div_mult_mod_eq)
    qed
  qed
qed

lemma str_int_inj: "str_int i = str_int j \<Longrightarrow> i = j"
proof -
  assume eq: "str_int i = str_int j"
  have no_minus: "\<And>k. hd (digits k) \<noteq> CHR ''-''"
  proof -
    fix k
    have "hd (digits k) \<in> set (digits k)" using digits_not_Nil by simp
    with digits_chars [of k] show "hd (digits k) \<noteq> CHR ''-''" by auto
  qed
  show "i = j"
  proof (cases "i < 0")
    case i: True
    show ?thesis
    proof (cases "j < 0")
      case True
      with i eq have "digits (nat (- i)) = digits (nat (- j))" by (simp add: str_int_def)
      then have "nat (- i) = nat (- j)" by (rule digits_inj)
      with i True show ?thesis by simp
    next
      case False
      with i eq have "CHR ''-'' # digits (nat (- i)) = digits (nat j)" by (simp add: str_int_def)
      then have "hd (digits (nat j)) = CHR ''-''" by (metis list.sel(1))
      with no_minus show ?thesis by blast
    qed
  next
    case i: False
    show ?thesis
    proof (cases "j < 0")
      case True
      with i eq have "digits (nat i) = CHR ''-'' # digits (nat (- j))" by (simp add: str_int_def)
      then have "hd (digits (nat i)) = CHR ''-''" by (metis list.sel(1))
      with no_minus show ?thesis by blast
    next
      case False
      with i eq have "digits (nat i) = digits (nat j)" by (simp add: str_int_def)
      then have "nat i = nat j" by (rule digits_inj)
      with i False show ?thesis by simp
    qed
  qed
qed

lemma str_int_no_underscore: "CHR ''_'' \<notin> set (str_int i)"
  using digits_chars [of "nat i"] digits_chars [of "nat (- i)"] by (auto simp add: str_int_def)

lemma append_last_separator:
  assumes "u \<notin> set d" and "u \<notin> set d'" and "xs @ u # d = xs' @ u # d'"
  shows "xs = xs' \<and> d = d'"
  using assms(3)
proof (induction xs arbitrary: xs')
  case Nil
  then show ?case using assms(1) by (cases xs') auto
next
  case (Cons x xs)
  then show ?case using assms(2) by (cases xs') auto
qed

section \<open>The cache key\<close>

text \<open>
  Two pairs derive the same key exactly when their issue numbers are equal and their URLs
  are equal once every slash is an underscore and every colon is gone: the marker and the
  number are read back from the key, the URL is not.
\<close>

lemma cache_key_eq_iff:
  "get_cache_key u n = get_cache_key u' n' \<longleftrightarrow>
     replace_py (replace_py u ''/'' ''_'') '':'' '''' = replace_py (replace_py u' ''/'' ''_'') '':'' ''''
     \<and> n = n'"
proof
  let ?a = "replace_py (replace_py u ''/'' ''_'') '':'' ''''"
  let ?a' = "replace_py (replace_py u' ''/'' ''_'') '':'' ''''"
  assume "get_cache_key u n = get_cache_key u' n'"
  then have "(?a @ ''_issue'') @ CHR ''_'' # str_int n = (?a' @ ''_issue'') @ CHR ''_'' # str_int n'"
    by (simp add: get_cache_key_def)
  from append_last_separator [OF str_int_no_underscore str_int_no_underscore this]
  have "?a @ ''_issue'' = ?a' @ ''_issue''" and "str_int n = str_int n'" by simp_all
  then show "?a = ?a' \<and> n = n'" using str_int_inj by simp
next
  assume "replace_py (replace_py u ''/'' ''_'') '':'' '''' = replace_py (replace_py u' ''/'' ''_'') '':'' ''''
     \<and> n = n'"
  then show "get_cache_key u n = get_cache_key u' n'" by (simp add: get_cache_key_def)
qed

text \<open>
  Claim C1: the derivation of the cache key is deterministic and injective, so two
  distinct pairs of a repository URL and an issue number never derive the same key.

  The derivation is a function, so the same pair always derives the same key. It is not
  injective: it writes an underscore for every slash, so the issues numbered 1 of the
  repositories \<open>b_c\<close> of the owner \<open>a\<close> and \<open>c\<close> of the owner \<open>a_b\<close> share one key, and with
  it one cache file.
\<close>

theorem cache_key_collision:
  "get_cache_key ''https://github.com/a/b_c'' 1 = ''https__github.com_a_b_c_issue_1.json'' \<and>
   get_cache_key ''https://github.com/a_b/c'' 1 = ''https__github.com_a_b_c_issue_1.json''"
  by (simp add: get_cache_key_def str_int_def digits.simps)

section \<open>Fetching an issue\<close>

text \<open>
  Claim C7: for every repository URL that yields fewer than two path segments after the
  removal of the prefix, \<open>fetch\<close> returns the record
  \<open>{error: "Invalid GitHub URL format"}\<close> and performs no network call. The segments
  are the pieces of the split at the slashes; no request is sent.
\<close>

theorem fetch_malformed_url:
  assumes "split_py (replace_py repo_url ''https://github.com/'' '''') ''/'' = Inr parts"
    and "length parts < 2"
  shows "fetch_github_issue token get repo_url issue_number =
           (JObject [(''error'', JString ''Invalid GitHub URL format'')], [])"
proof -
  from parse_too_short [OF assms] obtain m where "parse_repo_url repo_url = Inl (ValueError m)" ..
  then show ?thesis by (simp add: fetch_github_issue_def fetch_try_def)
qed

theorem fetch_malformed_url_witness:
  "fetch_github_issue None (example_get []) ''https://github.com/facebook'' 7 =
     (JObject [(''error'', JString ''Invalid GitHub URL format'')], [])"
proof -
  have "split_py (replace_py ''https://github.com/facebook'' ''https://github.com/'' '''') ''/''
          = Inr [''facebook'']"
    by (simp add: split_py_def)
  from fetch_malformed_url [OF this] show ?thesis by simp
qed

text \<open>
  Claim C8: for every issue request whose response status is not 200, \<open>fetch\<close> returns
  an error record carrying that status code without attempting to parse a response body;
  status 404 yields \<open>{error: "GitHub API error: 404"}\<close>.

  The source sends the comments request before it looks at the status of the issue
  response, so the claim holds when the comments request returns a response as well,
  whatever the status and the body of either response. When the comments request raises,
  the handler of that exception answers instead.
\<close>

theorem fetch_issue_status_error:
  assumes "parse_repo_url repo_url = Inr (owner, repo)"
    and "get (issue_request token owner repo issue_number) = Inr issue_resp"
    and "get (comments_request token owner repo issue_number) = Inr comments_resp"
    and "status_code issue_resp \<noteq> 200"
  shows "fst (fetch_github_issue token get repo_url issue_number) =
           JObject [(''error'',
             JString (''GitHub API error: '' @ str_int (status_code issue_resp)))]"
proof -
  have "read_responses issue_resp comments_resp =
          Inr (JObject [(''error'',
                 JString (''GitHub API error: '' @ str_int (status_code issue_resp)))])"
    using assms(4) by (simp add: read_responses_def)
  then show ?thesis
    by (simp add: fetch_result fetch_both_returned [OF assms(1-3)])
qed

theorem fetch_issue_status_error_witness:
  "fst (fetch_github_issue None
          (example_get
             [(''https://api.github.com/repos/a/b/issues/7'',
               Inr \<lparr>status_code = 404, json_body = Inl (JSONDecodeError ''Expecting value'')\<rparr>),
              (''https://api.github.com/repos/a/b/issues/7/comments'',
               Inr \<lparr>status_code = 404, json_body = Inl (JSONDecodeError ''Expecting value'')\<rparr>)])
          ''https://github.com/a/b'' 7)
   = JObject [(''error'', JString ''GitHub API error: 404'')]"
proof -
  let ?resp = "\<lparr>status_code = 404, json_body = Inl (JSONDecodeError ''Expecting value'')\<rparr>"
  let ?get = "example_get
             [(''https://api.github.com/repos/a/b/issues/7'', Inr ?resp),
              (''https://api.github.com/repos/a/b/issues/7/comments'', Inr ?resp)]"
  have p: "parse_repo_url ''https://github.com/a/b'' = Inr (''a'', ''b'')"
    by (simp add: parse_repo_url_def split_py_def)
  have i: "?get (issue_request None ''a'' ''b'' 7) = Inr ?resp"
    by (simp add: fetch_eval)
  have c: "?get (comments_request None ''a'' ''b'' 7) = Inr ?resp"
    by (simp add: fetch_eval)
  have s: "status_code ?resp \<noteq> 200" by simp
  from fetch_issue_status_error [OF p i c s] show ?thesis
    by (simp add: str_int_def digits.simps)
qed

text \<open>The issue request returns status 404 and the connection of the comments request is
  refused: the record reports the network error, not the status.\<close>

theorem fetch_issue_status_error_counterexample:
  "example_get
     [(''https://api.github.com/repos/a/b/issues/7'',
       Inr \<lparr>status_code = 404, json_body = Inr (JObject [(''message'', JString ''Not Found'')])\<rparr>)]
     (issue_request None ''a'' ''b'' 7)
   = Inr \<lparr>status_code = 404, json_body = Inr (JObject [(''message'', JString ''Not Found'')])\<rparr> \<and>
   fst (fetch_github_issue None
          (example_get
             [(''https://api.github.com/repos/a/b/issues/7'',
               Inr \<lparr>status_code = 404,
                    json_body = Inr (JObject [(''message'', JString ''Not Found'')])\<rparr>)])
          ''https://github.com/a/b'' 7)
   = JObject [(''error'', JString ''Network error: connection refused'')]"
  by (simp add: fetch_eval)

text \<open>
  Claim C10: for every call of \<open>fetch\<close> in which the issue request returns status 200
  but its response body is not valid JSON, \<open>fetch\<close> returns
  \<open>{error: "Invalid GitHub URL format"}\<close>, because the JSON decoding error is a
  \<open>ValueError\<close> and is caught by the handler of the invalid URL.

  This holds when the comments request returns a response too. The body of the issue
  response is decoded only after both requests have returned; when the comments request
  raises, the body is never decoded and the handler of that exception answers.
\<close>

theorem fetch_issue_body_invalid_json:
  assumes "parse_repo_url repo_url = Inr (owner, repo)"
    and "get (issue_request token owner repo issue_number) = Inr issue_resp"
    and "get (comments_request token owner repo issue_number) = Inr comments_resp"
    and "status_code issue_resp = 200"
    and "json_body issue_resp = Inl (JSONDecodeError m)"
  shows "fst (fetch_github_issue token get repo_url issue_number) =
           JObject [(''error'', JString ''Invalid GitHub URL format'')]"
proof -
  have "read_responses issue_resp comments_resp = Inl (JSONDecodeError m)"
    using assms(4,5) by (simp add: read_responses_def)
  then show ?thesis
    by (simp add: fetch_result fetch_both_returned [OF assms(1-3)])
qed

theorem fetch_issue_body_invalid_json_witness:
  "fst (fetch_github_issue (Some ''secret'')
          (example_get
             [(''https://api.github.com/repos/acme/widgets/issues/42'',
               Inr \<lparr>status_code = 200, json_body = Inl (JSONDecodeError ''Expecting value'')\<rparr>),
              (''https://api.github.com/repos/acme/widgets/issues/42/comments'',
               Inr \<lparr>status_code = 200, json_body = Inr (JArray [])\<rparr>)])
          ''https://github.com/acme/widgets'' 42)
   = JObject [(''error'', JString ''Invalid GitHub URL format'')]"
proof -
  let ?issue = "\<lparr>status_code = 200, json_body = Inl (JSONDecodeError ''Expecting value'')\<rparr>"
  let ?comments = "\<lparr>status_code = 200, json_body = Inr (JArray [])\<rparr>"
  let ?get = "example_get
             [(''https://api.github.com/repos/acme/widgets/issues/42'', Inr ?issue),
              (''https://api.github.com/repos/acme/widgets/issues/42/comments'', Inr ?comments)]"
  have p: "parse_repo_url ''https://github.com/acme/widgets'' = Inr (''acme'', ''widgets'')"
    by (simp add: parse_repo_url_def split_py_def)
  have i: "?get (issue_request (Some ''secret'') ''acme'' ''widgets'' 42) = Inr ?issue"
    by (simp add: fetch_eval)
  have c: "?get (comments_request (Some ''secret'') ''acme'' ''widgets'' 42) = Inr ?comments"
    by (simp add: fetch_eval)
  have s: "status_code ?issue = 200" by simp
  have b: "json_body ?issue = Inl (JSONDecodeError ''Expecting value'')" by simp
  from fetch_issue_body_invalid_json [OF p i c s b] show ?thesis .
qed

text \<open>The issue response has status 200 and a body that is no JSON document, and the
  comments request times out: the record reports the timeout.\<close>

theorem fetch_issue_body_invalid_json_counterexample:
  "example_get
     [(''https://api.github.com/repos/acme/widgets/issues/42'',
       Inr \<lparr>status_code = 200, json_body = Inl (JSONDecodeError ''Expecting value'')\<rparr>),
      (''https://api.github.com/repos/acme/widgets/issues/42/comments'',
       Inl (Timeout ''Read timed out.''))]
     (issue_request None ''acme'' ''widgets'' 42)
   = Inr \<lparr>status_code = 200, json_body = Inl (JSONDecodeError ''Expecting value'')\<rparr> \<and>
   fst (fetch_github_issue None
          (example_get
             [(''https://api.github.com/repos/acme/widgets/issues/42'',
               Inr \<lparr>status_code = 200, json_body = Inl (JSONDecodeError ''Expecting value'')\<rparr>),
              (''https://api.github.com/repos/acme/widgets/issues/42/comments'',
               Inl (Timeout ''Read timed out.''))])
          ''https://github.com/acme/widgets'' 42)
   = JObject [(''error'', JString ''Request timeout - GitHub server took too long'')]"
  by (simp add: fetch_eval)

text \<open>
  Claim C2: for every call of \<open>fetch\<close> in which the issue request succeeds with status
  200, any failure of the comments request (a transport failure or a status other than
  200) is soft-failed: \<open>fetch\<close> still returns a success-shaped record whose comments
  are the empty string, and never an error record caused by the comments request.

  A comments response with a status other than 200 is soft-failed, given that the body of
  the issue response decodes to an object: the body of the comments response is not
  read. A transport failure of the comments request is not: the exception reaches the
  handlers of \<open>fetch\<close>, which answer with an error record.
\<close>

theorem fetch_comments_soft_fail:
  assumes "parse_repo_url repo_url = Inr (owner, repo)"
    and "get (issue_request token owner repo issue_number) = Inr issue_resp"
    and "get (comments_request token owner repo issue_number) = Inr comments_resp"
    and "status_code issue_resp = 200"
    and "json_body issue_resp = Inr (JObject issue)"
    and "status_code comments_resp \<noteq> 200"
  shows "fst (fetch_github_issue token get repo_url issue_number) =
           JObject [(''title'', dict_get issue ''title'' (JString '''')),
                    (''body'', dict_get issue ''body'' (JString '''')),
                    (''comments'', JString '''')]"
proof -
  have "comments_text (JArray []) = Inr []"
    by (simp add: comments_text_def)
  then have "read_responses issue_resp comments_resp =
          Inr (JObject [(''title'', dict_get issue ''title'' (JString '''')),
                        (''body'', dict_get issue ''body'' (JString '''')),
                        (''comments'', JString '''')])"
    using assms(4-6) by (simp add: read_responses_def)
  then show ?thesis
    by (simp add: fetch_result fetch_both_returned [OF assms(1-3)])
qed

theorem fetch_comments_soft_fail_witness:
  "fst (fetch_github_issue None
          (example_get
             [(''https://api.github.com/repos/acme/widgets/issues/42'',
               Inr \<lparr>status_code = 200,
                    json_body = Inr (JObject [(''title'', JString ''Crash on startup''),
                                              (''body'', JNull)])\<rparr>),
              (''https://api.github.com/repos/acme/widgets/issues/42/comments'',
               Inr \<lparr>status_code = 403, json_body = Inl (JSONDecodeError ''Expecting value'')\<rparr>)])
          ''https://github.com/acme/widgets'' 42)
   = JObject [(''title'', JString ''Crash on startup''), (''body'', JNull),
              (''comments'', JString '''')]"
proof -
  let ?issue = "\<lparr>status_code = 200,
                  json_body = Inr (JObject [(''title'', JString ''Crash on startup''),
                                            (''body'', JNull)])\<rparr>"
  let ?comments = "\<lparr>status_code = 403, json_body = Inl (JSONDecodeError ''Expecting value'')\<rparr>"
  let ?get = "example_get
             [(''https://api.github.com/repos/acme/widgets/issues/42'', Inr ?issue),
              (''https://api.github.com/repos/acme/widgets/issues/42/comments'', Inr ?comments)]"
  have p: "parse_repo_url ''https://github.com/acme/widgets'' = Inr (''acme'', ''widgets'')"
    by (simp add: parse_repo_url_def split_py_def)
  have i: "?get (issue_request None ''acme'' ''widgets'' 42) = Inr ?issue"
    by (simp add: fetch_eval)
  have c: "?get (comments_request None ''acme'' ''widgets'' 42) = Inr ?comments"
    by (simp add: fetch_eval)
  have s: "status_code ?issue = 200" by simp
  have b: "json_body ?issue
             = Inr (JObject [(''title'', JString ''Crash on startup''), (''body'', JNull)])"
    by simp
  have n: "status_code ?comments \<noteq> 200" by simp
  from fetch_comments_soft_fail [OF p i c s b n] show ?thesis
    by (simp add: dict_get_def)
qed

text \<open>The issue request succeeds with status 200 and an object as body, and the comments
  request times out: the record is an error record.\<close>

theorem fetch_comments_soft_fail_counterexample:
  "example_get
     [(''https://api.github.com/repos/acme/widgets/issues/42'',
       Inr \<lparr>status_code = 200,
            json_body = Inr (JObject [(''title'', JString ''Crash on startup''),
                                      (''body'', JString '''')])\<rparr>),
      (''https://api.github.com/repos/acme/widgets/issues/42/comments'',
       Inl (Timeout ''Read timed out.''))]
     (comments_request None ''acme'' ''widgets'' 42)
   = Inl (Timeout ''Read timed out.'') \<and>
   fetch_github_issue None
     (example_get
        [(''https://api.github.com/repos/acme/widgets/issues/42'',
          Inr \<lparr>status_code = 200,
               json_body = Inr (JObject [(''title'', JString ''Crash on startup''),
                                         (''body'', JString '''')])\<rparr>),
         (''https://api.github.com/repos/acme/widgets/issues/42/comments'',
          Inl (Timeout ''Read timed out.''))])
     ''https://github.com/acme/widgets'' 42
   = (JObject [(''error'', JString ''Request timeout - GitHub server took too long'')],
      [issue_request None ''acme'' ''widgets'' 42, comments_request None ''acme'' ''widgets'' 42])"
  by (simp add: fetch_eval)

section \<open>The time limits of the requests\<close>

text \<open>
  Claim C6: only the issue request of the tracker carries an explicit timeout bound; the
  comments request and the model request carry no explicit bound and rely on the
  defaults of the transport.

  Both requests to the tracker carry the bound 10, the comments request as well as the
  issue request; the request to the model service, which \<open>analyze\<close> sends once the
  prompt is built, is the only one without a bound.
\<close>

theorem request_timeouts:
  assumes "parse_repo_url repo_url = Inr (owner, repo)"
    and "get (issue_request token owner repo issue_number) = Inr issue_resp"
    and "prompt py_str issue_data = Inr p"
  shows "snd (fetch_github_issue token get repo_url issue_number)
           = [issue_request token owner repo issue_number,
              comments_request token owner repo issue_number]
         \<and> timeout (issue_request token owner repo issue_number) = Some 10
         \<and> timeout (comments_request token owner repo issue_number) = Some 10
         \<and> sent_of (analyze_issue_with_ai py_str generate loads issue_data)
           = Inr [analyze_request p]
         \<and> http_timeout (analyze_request p) = None"
proof -
  have sent: "snd (fetch_try token get repo_url issue_number)
                = [issue_request token owner repo issue_number,
                   comments_request token owner repo issue_number]"
    using assms(1,2) by (simp add: fetch_try_def Let_def split: sum.splits)
  have analyze: "sent_of (analyze_issue_with_ai py_str generate loads issue_data)
                   = Inr [analyze_request p]"
    by (simp add: analyze_built [OF assms(3)])
  from sent analyze show ?thesis
    by (simp add: fetch_sent issue_request_def comments_request_def analyze_request_def)
qed

theorem request_timeouts_witness:
  "map timeout
     (snd (fetch_github_issue None
             (example_get
                [(''https://api.github.com/repos/a/b/issues/7'',
                  Inr \<lparr>status_code = 404, json_body = Inr JNull\<rparr>)])
             ''https://github.com/a/b'' 7))
     = [Some 10, Some 10]
   \<and> sent_of (analyze_issue_with_ai example_py_str (example_generate example_text)
                example_loads [])
     = Inr [analyze_request (prompt_text '''' ''No description provided'' ''No comments yet'')]
   \<and> http_timeout
       (analyze_request (prompt_text '''' ''No description provided'' ''No comments yet''))
     = None"
proof -
  let ?resp = "\<lparr>status_code = 404, json_body = Inr JNull\<rparr>"
  let ?get = "example_get [(''https://api.github.com/repos/a/b/issues/7'', Inr ?resp)]"
  have p: "parse_repo_url ''https://github.com/a/b'' = Inr (''a'', ''b'')"
    by (simp add: parse_repo_url_def split_py_def)
  have i: "?get (issue_request None ''a'' ''b'' 7) = Inr ?resp"
    by (simp add: fetch_eval)
  from request_timeouts [where get = ?get and generate = "example_generate example_text"
      and loads = example_loads, OF p i example_prompt_empty]
  show ?thesis by simp
qed

text \<open>The comments request that \<open>fetch\<close> sends carries the bound 10.\<close>

theorem request_timeouts_counterexample:
  "snd (fetch_github_issue None
          (example_get
             [(''https://api.github.com/repos/a/b/issues/7'',
               Inr \<lparr>status_code = 200, json_body = Inr (JObject [])\<rparr>),
              (''https://api.github.com/repos/a/b/issues/7/comments'',
               Inr \<lparr>status_code = 200, json_body = Inr (JArray [])\<rparr>)])
          ''https://github.com/a/b'' 7)
   = [\<lparr>url = ''https://api.github.com/repos/a/b/issues/7'', headers = [],
       timeout = Some 10\<rparr>,
      \<lparr>url = ''https://api.github.com/repos/a/b/issues/7/comments'', headers = [],
       timeout = Some 10\<rparr>]"
  by (simp add: fetch_eval)

section \<open>Exceptions at the boundary of the two functions\<close>

text \<open>
  Claim C4: for every input, \<open>fetch\<close> and \<open>analyze\<close> never raise past their boundary:
  every failure path returns a record carrying an \<open>error\<close> field instead of
  propagating an exception to the caller.

  All of \<open>fetch\<close> is inside its \<open>try\<close> statement: whatever exception the body raises,
  the result is a record with the \<open>error\<close> field alone, and what the body returns is
  such a record or a record of the three fields of an issue. In \<open>analyze\<close> the
  \<open>try\<close> statement starts after the prompt is built. Whatever exception its body
  raises, the result is a record with the fields \<open>error\<close> and \<open>details\<close>; but an
  exception that the formatting of the prompt raises leaves \<open>analyze\<close>, and \<open>analyze\<close>
  raises no other.
\<close>

theorem exceptions_at_the_boundary:
  "(case fst (fetch_try token get repo_url issue_number) of
      Inl e \<Rightarrow>
        (\<exists>m. fst (fetch_github_issue token get repo_url issue_number)
               = JObject [(''error'', JString m)])
    | Inr issue_record \<Rightarrow>
        fst (fetch_github_issue token get repo_url issue_number) = issue_record
        \<and> ((\<exists>m. issue_record = JObject [(''error'', JString m)])
           \<or> (\<exists>title body text.
                 issue_record = JObject [(''title'', title), (''body'', body),
                                         (''comments'', JString text)])))
   \<and> (\<forall>e. analyze_issue_with_ai py_str generate loads issue_data = Inl e
            \<longleftrightarrow> prompt py_str issue_data = Inl e)
   \<and> (\<forall>p. prompt py_str issue_data = Inr p \<longrightarrow>
          (case fst (analyze_try p generate loads) of
             Inl e \<Rightarrow>
               (\<exists>m d. analyze_issue_with_ai py_str generate loads issue_data
                        = Inr (JObject [(''error'', JString m), (''details'', JString d)],
                               [analyze_request p]))
           | Inr result \<Rightarrow>
               analyze_issue_with_ai py_str generate loads issue_data
                 = Inr (result, [analyze_request p])))"
proof (intro conjI allI impI)
  show "case fst (fetch_try token get repo_url issue_number) of
      Inl e \<Rightarrow>
        (\<exists>m. fst (fetch_github_issue token get repo_url issue_number)
               = JObject [(''error'', JString m)])
    | Inr issue_record \<Rightarrow>
        fst (fetch_github_issue token get repo_url issue_number) = issue_record
        \<and> ((\<exists>m. issue_record = JObject [(''error'', JString m)])
           \<or> (\<exists>title body text.
                 issue_record = JObject [(''title'', title), (''body'', body),
                                         (''comments'', JString text)]))"
  proof (cases "fst (fetch_try token get repo_url issue_number)")
    case (Inl e)
    with fetch_except_error [of e] show ?thesis by (simp add: fetch_result)
  next
    case (Inr r)
    with fetch_try_shape [OF Inr] show ?thesis by (simp add: fetch_result)
  qed
next
  fix e
  show "analyze_issue_with_ai py_str generate loads issue_data = Inl e
          \<longleftrightarrow> prompt py_str issue_data = Inl e"
    by (rule analyze_raises_iff)
next
  fix p
  assume built: "prompt py_str issue_data = Inr p"
  show "case fst (analyze_try p generate loads) of
          Inl e \<Rightarrow>
            (\<exists>m d. analyze_issue_with_ai py_str generate loads issue_data
                     = Inr (JObject [(''error'', JString m), (''details'', JString d)],
                            [analyze_request p]))
        | Inr result \<Rightarrow>
            analyze_issue_with_ai py_str generate loads issue_data
              = Inr (result, [analyze_request p])"
  proof (cases "fst (analyze_try p generate loads)")
    case (Inl e)
    with analyze_except_error [of e] show ?thesis
      by (auto simp add: analyze_built [OF built])
  next
    case (Inr r)
    then show ?thesis by (simp add: analyze_built [OF built])
  qed
qed

text \<open>A tracker that refuses the connection and a model service that is not available: both
  functions return an error record.\<close>

theorem exceptions_at_the_boundary_witness:
  "fst (fetch_try None (example_get []) ''https://github.com/a/b'' 7)
     = Inl (RequestException ''connection refused'')
   \<and> fst (fetch_github_issue None (example_get []) ''https://github.com/a/b'' 7)
     = JObject [(''error'', JString ''Network error: connection refused'')]
   \<and> prompt example_py_str []
     = Inr (prompt_text '''' ''No description provided'' ''No comments yet'')
   \<and> result_of (analyze_issue_with_ai example_py_str example_unavailable example_loads [])
     = Inr (JObject [(''error'', JString ''Analysis failed''),
                     (''details'', JString ''503 UNAVAILABLE'')])"
proof -
  let ?p = "prompt_text '''' ''No description provided'' ''No comments yet''"
  have f: "fst (fetch_try None (example_get []) ''https://github.com/a/b'' 7)
             = Inl (RequestException ''connection refused'')"
    by (simp add: fetch_eval)
  have a: "fst (analyze_try ?p example_unavailable example_loads)
             = Inl (OtherException ''503 UNAVAILABLE'')"
    by (simp add: analyze_try_def example_unavailable_def)
  from exceptions_at_the_boundary [of None "example_get []" "''https://github.com/a/b''" 7
      example_py_str example_unavailable example_loads "[]"]
  have "(\<exists>m. fst (fetch_github_issue None (example_get []) ''https://github.com/a/b'' 7)
               = JObject [(''error'', JString m)])"
    and "\<exists>m d. analyze_issue_with_ai example_py_str example_unavailable example_loads []
                 = Inr (JObject [(''error'', JString m), (''details'', JString d)],
                        [analyze_request ?p])"
    by (simp_all add: f a example_prompt_empty)
  then show ?thesis
    by (auto simp add: f fetch_result example_prompt_empty analyze_built a)
qed

text \<open>An issue whose title is an integer of 4301 digits: \<open>str\<close> raises while the prompt
  is formatted, before the \<open>try\<close> statement, and the exception leaves \<open>analyze\<close>.\<close>

theorem exceptions_at_the_boundary_counterexample:
  "analyze_issue_with_ai example_py_str example_unavailable example_loads
     [(''title'', JInt int_max_str)]
   = Inl (ValueError int_max_str_message)"
proof -
  have "int_max_str \<le> \<bar>int_max_str\<bar>" by (rule abs_ge_self)
  then have "prompt example_py_str [(''title'', JInt int_max_str)]
               = Inl (ValueError int_max_str_message)"
    by (simp add: prompt_def dict_get_def example_py_str_def)
  then show ?thesis by (simp add: analyze_issue_with_ai_def)
qed

section \<open>The round trip through the cache\<close>

text \<open>
  Claim C3: for every well-formed analysis record and every key of a repository URL and
  an issue number, a successful put of the record followed by a get for the same key
  returns a record structurally equal to it, with the cache directory created when it
  did not exist.

  The put succeeds when nothing but a directory stands at the path of the cache directory
  and the file of the key can be opened. The encoder and the decoder are those of the
  standard library: the record is one that they take to a text and back, as they do
  every well-formed record. The state \<open>s'\<close> after the put has the directory and the
  written file.
\<close>

theorem cache_round_trip:
  assumes "cache_dir s \<noteq> NotADirectory"
    and "can_open s (get_cache_key repo_url issue_number)"
    and "loads (dumps result) = Inr result"
    and "s' = s\<lparr>cache_dir := Directory,
                 files := (files s)(get_cache_key repo_url issue_number \<mapsto> dumps result)\<rparr>"
  shows "cache_analysis dumps repo_url issue_number result s = Inr s'
           \<and> get_cached_analysis loads repo_url issue_number s' = Inr (Some result, s')"
proof -
  have put: "cache_analysis dumps repo_url issue_number result s = Inr s'"
    using assms(2,4) by (simp add: cache_analysis_def ensure_cache_dir_creates [OF assms(1)])
  have "cache_dir s' \<noteq> NotADirectory"
    using assms(4) by simp
  from ensure_cache_dir_creates [OF this] have again: "ensure_cache_dir s' = Inr s'"
    using assms(4) by simp
  have stored: "files s' (get_cache_key repo_url issue_number) = Some (dumps result)"
    and opens: "can_open s' (get_cache_key repo_url issue_number)"
    using assms(2,4) by simp_all
  have get: "get_cached_analysis loads repo_url issue_number s' = Inr (Some result, s')"
    by (simp add: get_cached_analysis_def again stored opens assms(3))
  from put get show ?thesis ..
qed

theorem cache_round_trip_witness:
  "cache_analysis example_dumps ''https://github.com/acme/widgets'' 42 example_analysis example_fs
     = Inr (example_fs\<lparr>cache_dir := Directory,
              files := [''https__github.com_acme_widgets_issue_42.json'' \<mapsto> example_indented_text]\<rparr>)
   \<and> get_cached_analysis example_loads ''https://github.com/acme/widgets'' 42
       (example_fs\<lparr>cache_dir := Directory,
          files := [''https__github.com_acme_widgets_issue_42.json'' \<mapsto> example_indented_text]\<rparr>)
     = Inr (Some example_analysis,
            example_fs\<lparr>cache_dir := Directory,
              files := [''https__github.com_acme_widgets_issue_42.json'' \<mapsto> example_indented_text]\<rparr>)"
proof -
  have d: "cache_dir example_fs \<noteq> NotADirectory" by (simp add: example_fs_def)
  have k: "get_cache_key ''https://github.com/acme/widgets'' 42
             = ''https__github.com_acme_widgets_issue_42.json''"
    by (simp add: get_cache_key_def str_int_def digits.simps)
  have c: "can_open example_fs (get_cache_key ''https://github.com/acme/widgets'' 42)"
    by (simp add: example_fs_def)
  have l: "example_loads (example_dumps example_analysis) = Inr example_analysis"
    by (simp add: example_loads_def example_dumps_def)
  have f: "files example_fs = Map.empty" by (simp add: example_fs_def)
  from cache_round_trip [where loads = example_loads and dumps = example_dumps, OF d c l refl]
  show ?thesis by (simp add: k f example_dumps_def)
qed

section \<open>Reading the response of the model\<close>

text \<open>
  Claim C5: for every model response whose text is a fenced code block (with an optional
  language tag immediately after the opening fence) containing a JSON object with all
  five success fields, \<open>analyze\<close> strips the fence, parses the content, and returns the
  parsed record; for the fenced object of the specification's example the returned
  record has the type \<open>bug\<close>.

  The source removes the opening marker, the tag \<open>json\<close> when the text goes on with
  these four characters, and everything from the next marker on. So the claim holds when
  the tag, if there is one, is \<open>json\<close>, and no marker starts before the closing one:
  \<open>inner\<close> is the text between the two markers, and the decoder is given \<open>inner\<close>
  less a leading \<open>json\<close>. Another tag stays in front of the content, and the decoder
  refuses the text.
\<close>

theorem analyze_fenced_response:
  assumes "prompt py_str issue_data = Inr p"
    and "generate (analyze_request p) = Inr (Some text)"
    and "strip_py text = fence @ inner @ fence @ rest"
    and "\<not> contains fence (inner @ butlast fence)"
    and "loads (if prefix ''json'' inner then drop 4 inner else inner) = Inr (JObject kvs)"
    and "set required_keys \<subseteq> set (map fst kvs)"
  shows "result_of (analyze_issue_with_ai py_str generate loads issue_data)
           = Inr (JObject kvs)"
proof -
  have "strip_code_fence (strip_py text)
          = Inr (if prefix ''json'' inner then drop 4 inner else inner)"
    unfolding assms(3) by (rule strip_code_fence_fenced [OF assms(4)])
  then have "read_response loads (Some text) = Inr (JObject kvs)"
    using assms(5,6) by (simp add: read_response_def all_in_object)
  with analyze_returned [where generate = generate and loads = loads, OF assms(2)]
  have "fst (analyze_try p generate loads) = Inr (JObject kvs)" by simp
  then show ?thesis
    by (simp add: analyze_built [OF assms(1)])
qed

text \<open>The example of the specification, fenced with the tag \<open>json\<close>.\<close>

theorem analyze_fenced_response_witness:
  "result_of (analyze_issue_with_ai example_py_str
          (example_generate (fence @ ''json'' @ [CHR 0x0A] @ example_text @ [CHR 0x0A] @ fence))
          example_loads [(''title'', JString ''Crash on startup'')])
     = Inr example_analysis
   \<and> field example_analysis ''type'' = Some (JString ''bug'')"
proof -
  let ?inner = "''json'' @ [CHR 0x0A] @ example_text @ [CHR 0x0A]"
  let ?text = "fence @ ?inner @ fence"
  let ?kvs = "[(''summary'', JString ''s''), (''type'', JString ''bug''),
              (''priority_score'', JString ''3 - x''),
              (''suggested_labels'', JArray [JString ''a'']),
              (''potential_impact'', JString ''i'')]"
  let ?p = "prompt_text ''Crash on startup'' ''No description provided'' ''No comments yet''"
  have g: "example_generate ?text (analyze_request ?p) = Inr (Some ?text)"
    by (simp add: example_generate_def)
  have s: "strip_py ?text = fence @ ?inner @ fence @ []"
    by (simp add: strip_py_def fence_chars isspace_def example_text_def)
  have c: "\<not> contains fence (?inner @ butlast fence)"
    by (simp add: fence_chars example_text_def)
  have l: "example_loads (if prefix ''json'' ?inner then drop 4 ?inner else ?inner)
             = Inr (JObject ?kvs)"
    by (simp add: example_loads_def example_analysis_def)
  have k: "set required_keys \<subseteq> set (map fst ?kvs)"
    by (simp add: required_keys_def)
  from analyze_fenced_response [where generate = "example_generate ?text"
      and loads = example_loads, OF example_prompt_title g s c l k]
  show ?thesis
    by (simp add: example_analysis_def)
qed

text \<open>The same block with the tag \<open>JSON\<close> in capitals: the tag is not removed, and the
  result is the record of a response that could not be parsed. So is it for a block with
  the tag \<open>json\<close> whose object has a fence marker inside a string: the content is cut
  at that marker.\<close>

theorem analyze_fenced_response_counterexample:
  "result_of (analyze_issue_with_ai example_py_str
          (example_generate (fence @ ''JSON'' @ [CHR 0x0A] @ example_text @ [CHR 0x0A] @ fence))
          example_loads [(''title'', JString ''Crash on startup'')])
     = Inr (JObject [(''error'', JString ''AI response parsing failed''),
                     (''details'', JString ''Could not parse AI output as JSON'')])
   \<and> example_loads ([CHR 0x0A] @ example_quoting_text @ [CHR 0x0A]) = Inr example_quoting
   \<and> result_of (analyze_issue_with_ai example_py_str
          (example_generate
             (fence @ ''json'' @ [CHR 0x0A] @ example_quoting_text @ [CHR 0x0A] @ fence))
          example_loads [(''title'', JString ''Crash on startup'')])
     = Inr (JObject [(''error'', JString ''AI response parsing failed''),
                     (''details'', JString ''Could not parse AI output as JSON'')])"
  by (simp add: analyze_eval example_eval)

text \<open>
  Claim C9: for every model response that parses as structured data but is missing at
  least one of the five required success fields, \<open>analyze\<close> returns
  \<open>{error: "Incomplete analysis response"}\<close>; JSON missing \<open>potential_impact\<close>
  yields that record.

  The source tests \<open>key in result\<close> for each required key. The claim holds when the test
  is false for one of them: the decoded value is an object without that key, a list
  without that element or a string without that substring. On a number, a truth value or
  \<open>null\<close> the test raises, and the result is the record of a failed analysis.
\<close>

theorem analyze_incomplete_response:
  assumes "prompt py_str issue_data = Inr p"
    and "generate (analyze_request p) = Inr (Some text)"
    and "strip_code_fence (strip_py text) = Inr payload"
    and "loads payload = Inr result"
    and "key \<in> set required_keys"
    and "py_in key result = Inr False"
  shows "result_of (analyze_issue_with_ai py_str generate loads issue_data)
           = Inr (JObject [(''error'', JString ''Incomplete analysis response'')])"
proof -
  from all_in_missing [OF assms(5,6)]
  have "read_response loads (Some text)
          = Inr (JObject [(''error'', JString ''Incomplete analysis response'')])"
    using assms(3,4) by (simp add: read_response_def)
  with analyze_returned [where generate = generate and loads = loads, OF assms(2)]
  have "fst (analyze_try p generate loads)
          = Inr (JObject [(''error'', JString ''Incomplete analysis response'')])" by simp
  then show ?thesis
    by (simp add: analyze_built [OF assms(1)])
qed

theorem analyze_incomplete_response_witness:
  "result_of (analyze_issue_with_ai example_py_str (example_generate example_incomplete_text)
          example_loads [])
     = Inr (JObject [(''error'', JString ''Incomplete analysis response'')])"
proof -
  let ?p = "prompt_text '''' ''No description provided'' ''No comments yet''"
  have g: "example_generate example_incomplete_text (analyze_request ?p)
             = Inr (Some example_incomplete_text)"
    by (simp add: example_generate_def)
  have s: "strip_code_fence (strip_py example_incomplete_text) = Inr example_incomplete_text"
    by (simp add: strip_code_fence_def strip_py_def isspace_def fence_chars
          example_incomplete_text_def)
  have l: "example_loads example_incomplete_text = Inr example_incomplete"
    by (simp add: example_eval fence_chars)
  have k: "''potential_impact'' \<in> set required_keys" by (simp add: required_keys_def)
  have m: "py_in ''potential_impact'' example_incomplete = Inr False"
    by (simp add: example_incomplete_def)
  from analyze_incomplete_response [where generate = "example_generate example_incomplete_text"
      and loads = example_loads, OF example_prompt_empty g s l k m]
  show ?thesis .
qed

text \<open>The response \<open>42\<close> parses, to a number, and has none of the five fields: the result
  is the record of a failed analysis.\<close>

theorem analyze_incomplete_response_counterexample:
  "example_loads ''42'' = Inr (JInt 42) \<and>
   field_of (analyze_issue_with_ai example_py_str (example_generate ''42'') example_loads [])
     ''error''
     = Some (JString ''Analysis failed'')"
  by (simp add: analyze_eval example_eval)

end
